theory Spec2Isabelle
  imports Main
begin

section \<open>Python values, dictionaries and string formatting\<close>

text \<open>
  The module reads JSON-like values out of dictionaries (the configuration and the
  reputation report) and formats them into f-strings. The scalar values that occur
  are \<open>None\<close>, booleans, integers and strings.
\<close>

datatype pyval = PNone | PBool bool | PInt int | PStr string

type_synonym pydict = "string \<rightharpoonup> pyval"

definition dict_get :: "pydict \<Rightarrow> string \<Rightarrow> pyval" where
  \<comment> \<open>\<open>d.get(k)\<close>: the value stored under \<open>k\<close>, \<open>None\<close> when the key is missing.\<close>
  "dict_get d k = (case d k of None \<Rightarrow> PNone | Some v \<Rightarrow> v)"

definition digit :: "nat \<Rightarrow> char" where
  "digit d = ''0123456789'' ! d"

function decimal :: "nat \<Rightarrow> string" where
  \<comment> \<open>The decimal digits of a natural number, most significant first.\<close>
  "decimal n = (if n < 10 then [digit n] else decimal (n div 10) @ [digit (n mod 10)])"
  by pat_completeness auto
termination
  by (relation "measure id") auto

declare decimal.simps [simp del]

definition int_repr :: "int \<Rightarrow> string" where
  \<comment> \<open>\<open>str(i)\<close> for an integer.\<close>
  "int_repr i = (if 0 \<le> i then decimal (nat i) else CHR ''-'' # decimal (nat (- i)))"

fun py_str :: "pyval \<Rightarrow> string" where
  \<comment> \<open>What \<open>str(v)\<close>, and so \<open>f"{v}"\<close>, renders.\<close>
  "py_str PNone = ''None''"
| "py_str (PBool b) = (if b then ''True'' else ''False'')"
| "py_str (PInt i) = int_repr i"
| "py_str (PStr s) = s"

fun py_truthy :: "pyval \<Rightarrow> bool" where
  \<comment> \<open>\<open>if v:\<close>\<close>
  "py_truthy PNone = False"
| "py_truthy (PBool b) = b"
| "py_truthy (PInt i) = (i \<noteq> 0)"
| "py_truthy (PStr s) = (s \<noteq> [])"

fun py_eq_zero :: "pyval \<Rightarrow> bool" where
  \<comment> \<open>\<open>v == 0\<close>; \<open>bool\<close> is a subclass of \<open>int\<close> in Python, so \<open>False == 0\<close> holds.\<close>
  "py_eq_zero PNone = False"
| "py_eq_zero (PBool b) = (\<not> b)"
| "py_eq_zero (PInt i) = (i = 0)"
| "py_eq_zero (PStr s) = False"

fun contains :: "string \<Rightarrow> string \<Rightarrow> bool" where
  \<comment> \<open>\<open>sub in s\<close> on strings: \<open>sub\<close> occurs in \<open>s\<close> as a contiguous run.\<close>
  "contains sub [] = (sub = [])"
| "contains sub (c # cs) = (take (length sub) (c # cs) = sub \<or> contains sub cs)"

section \<open>The host's data: indicators, status objects, the log\<close>

text \<open>
  The indicator object handed to the hooks. The source reads
  \<open>data.ioc_type.type_name\<close>, \<open>ioc.ioc_value\<close>, \<open>ioc.ioc_description\<close> and
  \<open>ioc.ioc_tags\<close>, and stores into \<open>data['ioc_value']\<close>, \<open>ioc.ioc_description\<close> and
  \<open>ioc.ioc_tags\<close>. The attribute \<open>ioc_value\<close> and the item \<open>'ioc_value'\<close> are the
  same field of the record.
\<close>

record ioc_type =
  type_name :: string

record ioc =
  ioc_type :: ioc_type
  ioc_value :: pyval
  ioc_description :: pyval
  ioc_tags :: pyval

datatype level = INFO | ERROR | CRITICAL

type_synonym log_record = "level \<times> string"

text \<open>
  Modelled from the spec: the status object of the host's interface library
  (\<open>iris_interface.IrisInterfaceStatus\<close>) is imported by the module and is not part of
  the repository. A status is a success or an error, with a message, optional data and
  the log lines handed back to the host. \<open>I2Success\<close> and \<open>I2Error\<close> are the library's
  two prototypes; calling a prototype as \<open>I2Success(data=d, logs=l)\<close> gives a status of
  the same kind carrying \<open>d\<close> and \<open>l\<close>.
\<close>

datatype status_kind = Success | Error

record 'd iistatus =
  st_kind :: status_kind
  st_message :: string
  st_data :: "'d option"
  st_logs :: "log_record list"

definition I2Success :: "'d iistatus" where
  "I2Success = \<lparr>st_kind = Success, st_message = ''Success'', st_data = None, st_logs = []\<rparr>"

definition I2Error :: "'d iistatus" where
  "I2Error = \<lparr>st_kind = Error, st_message = ''Unspecified error'', st_data = None, st_logs = []\<rparr>"

definition I2Success_data :: "'d \<Rightarrow> 'd iistatus" where
  \<comment> \<open>\<open>I2Success(data=d)\<close>\<close>
  "I2Success_data d = I2Success\<lparr>st_data := Some d\<rparr>"

definition I2Success_call :: "'d \<Rightarrow> log_record list \<Rightarrow> 'd iistatus" where
  \<comment> \<open>\<open>I2Success(data=d, logs=l)\<close>\<close>
  "I2Success_call d l = I2Success\<lparr>st_data := Some d, st_logs := l\<rparr>"

definition I2Error_call :: "'d \<Rightarrow> log_record list \<Rightarrow> 'd iistatus" where
  \<comment> \<open>\<open>I2Error(data=d, logs=l)\<close>\<close>
  "I2Error_call d l = I2Error\<lparr>st_data := Some d, st_logs := l\<rparr>"

definition is_failure :: "'d iistatus \<Rightarrow> bool" where
  "is_failure s = (st_kind s = Error)"

definition get_message :: "'d iistatus \<Rightarrow> string" where
  "get_message s = st_message s"

definition get_data :: "pyval iistatus \<Rightarrow> pyval" where
  "get_data s = (case st_data s of None \<Rightarrow> PNone | Some v \<Rightarrow> v)"

section \<open>The collaborators: reputation client and host registration\<close>

text \<open>
  A report is the dictionary the client returns; \<open>report.get('results')\<close> is a
  dictionary, or \<open>None\<close> when the key is missing.
\<close>

type_synonym report = "string \<rightharpoonup> pydict"

record vt_api =
  get_ip_report :: "pyval \<Rightarrow> report"
  get_domain_report :: "pyval \<Rightarrow> report"

text \<open>
  A call of \<open>register_to_hook\<close>: the module id, the hook name and the further keyword
  arguments in the order the source writes them.
\<close>

type_synonym hook_call = "int \<times> string \<times> (string \<times> pyval) list"

text \<open>
  The environment of the module instance: the two client classes of the
  \<open>virus_total_apis\<close> package (each built from the API key) and the host's
  \<open>register_to_hook\<close>. They are parameters of the model.
\<close>

record env =
  PrivateApi :: "pyval \<Rightarrow> vt_api"
  PublicApi :: "pyval \<Rightarrow> vt_api"
  register_to_hook :: "hook_call \<Rightarrow> pyval iistatus"

text \<open>
  What a call can change: the indicator object (mutated in place by the source), the
  log lines collected in \<open>self.message_queue\<close>, and the traces of the requests sent to
  the reputation client and of the registrations sent to the host.
\<close>

record world =
  data :: ioc
  message_queue :: "log_record list"
  vt_calls :: "(string \<times> pyval) list"
  hook_calls :: "hook_call list"

datatype exn = AttributeError

definition log_info :: "string \<Rightarrow> world \<Rightarrow> world" where
  "log_info msg w = w\<lparr>message_queue := message_queue w @ [(INFO, msg)]\<rparr>"

definition log_error :: "string \<Rightarrow> world \<Rightarrow> world" where
  "log_error msg w = w\<lparr>message_queue := message_queue w @ [(ERROR, msg)]\<rparr>"

definition log_critical :: "string \<Rightarrow> world \<Rightarrow> world" where
  "log_critical msg w = w\<lparr>message_queue := message_queue w @ [(CRITICAL, msg)]\<rparr>"

section \<open>IrisVTInterface\<close>

definition call_register :: "env \<Rightarrow> hook_call \<Rightarrow> world \<Rightarrow> pyval iistatus \<times> world" where
  \<comment> \<open>\<open>self.register_to_hook(...)\<close>: the host answers with a status; the attempt is recorded.\<close>
  "call_register e c w = (register_to_hook e c, w\<lparr>hook_calls := hook_calls w @ [c]\<rparr>)"

definition report_status :: "pyval iistatus \<Rightarrow> string \<Rightarrow> world \<Rightarrow> world" where
  \<comment> \<open>The \<open>if status.is_failure(): ... else: ...\<close> block that follows each registration.\<close>
  "report_status status hook w =
     (if is_failure status
      then log_error (py_str (get_data status)) (log_error (get_message status) w)
      else log_info (''Successfully registered '' @ hook @ '' hook'') w)"

definition register_hooks :: "env \<Rightarrow> int \<Rightarrow> world \<Rightarrow> world" where
  \<comment> \<open>Only the first call's result is bound to \<open>status\<close>; the other three results are dropped.\<close>
  "register_hooks e module_id w =
     (let (status, w1) = call_register e (module_id, ''on_postload_ioc_create'', []) w;
          w2 = report_status status ''on_postload_ioc_create'' w1;
          (_, w3) = call_register e (module_id, ''on_postload_ioc_update'', []) w2;
          w4 = report_status status ''on_postload_ioc_update'' w3;
          (_, w5) = call_register e (module_id, ''on_preload_ioc_update'', []) w4;
          w6 = report_status status ''on_preload_ioc_update'' w5;
          (_, w7) = call_register e
                      (module_id, ''on_manual_trigger_ioc'',
                       [(''manual_hook_name'', PStr ''Process with VT module''),
                        (''is_manual_hook'', PBool True)]) w6
      in report_status status ''on_manual_trigger_ioc'' w7)"

definition get_vt_instance :: "env \<Rightarrow> pydict \<Rightarrow> vt_api" where
  "get_vt_instance e conf =
     (let is_premium = dict_get conf ''vt_key_is_premium'';
          api_key = dict_get conf ''vt_api_key''
      in if py_truthy is_premium then PrivateApi e api_key else PublicApi e api_key)"

definition handle_vt_domain :: "env \<Rightarrow> pydict \<Rightarrow> world \<Rightarrow> (exn + ioc iistatus) \<times> world" where
  "handle_vt_domain e conf w =
     (let vt = get_vt_instance e conf;
          w1 = log_info (''Getting domain report for '' @ py_str (ioc_value (data w))) w;
          report = get_domain_report vt (ioc_value (data w1));
          w2 = w1\<lparr>vt_calls := vt_calls w1 @ [(''get_domain_report'', ioc_value (data w1))]\<rparr>;
          w3 = log_info ''VT report fetched.'' w2
      in case report ''results'' of
           None \<Rightarrow> (Inl AttributeError, w3)
         | Some results \<Rightarrow>
             if py_eq_zero (dict_get results ''response_code'')
             then (Inr I2Success,
                   log_error (''Got invalid feedback from VT :: ''
                                @ py_str (dict_get results ''verbose_msg'')) w3)
             else if dict_get conf ''vt_domain_add_whois_as_desc'' = PBool True
             then (Inr I2Success,
                   w3\<lparr>data := (data w3)\<lparr>ioc_description :=
                           PStr (py_str (ioc_description (data w3))
                                 @ [CHR 0x0A, CHR 0x0A] @ ''WHOIS'' @ [CHR 0x0A] @ '' ''
                                 @ py_str (dict_get results ''whois''))\<rparr>\<rparr>)
             else (Inr I2Success, w3))"

definition handle_vt_ip :: "env \<Rightarrow> pydict \<Rightarrow> world \<Rightarrow> (exn + ioc iistatus) \<times> world" where
  "handle_vt_ip e conf w =
     (let vt = get_vt_instance e conf;
          w1 = log_info (''Getting IP report for '' @ py_str (ioc_value (data w))) w;
          report = get_ip_report vt (ioc_value (data w1));
          w2 = w1\<lparr>vt_calls := vt_calls w1 @ [(''get_ip_report'', ioc_value (data w1))]\<rparr>;
          w3 = log_info ''VT report fetched.'' w2
      in case report ''results'' of
           None \<Rightarrow> (Inl AttributeError, w3)
         | Some results \<Rightarrow>
             if py_eq_zero (dict_get results ''response_code'')
             then (Inr I2Success,
                   log_error (''Got invalid feedback from VT :: ''
                                @ py_str (dict_get results ''verbose_msg'')) w3)
             else if dict_get conf ''vt_ip_assign_asn_as_tag'' = PBool True
             then (let w4 = log_info ''Assigning new ASN tag to IOC.'' w3;
                       asn = dict_get results ''asn'';
                       w5 = (if asn = PNone then log_info ''ASN was nul - skipping'' w4 else w4)
                   in (Inr I2Success,
                       w5\<lparr>data := (data w5)\<lparr>ioc_tags :=
                               PStr (py_str (ioc_tags (data w5)) @ '',ASN:''
                                     @ py_str (dict_get results ''asn''))\<rparr>\<rparr>))
             else (Inr I2Success, w3))"

definition handle_ioc :: "env \<Rightarrow> pydict \<Rightarrow> world \<Rightarrow> (exn + ioc iistatus) \<times> world" where
  "handle_ioc e conf w =
     (if contains ''ip-'' (type_name (ioc_type (data w))) then handle_vt_ip e conf w
      else if contains ''domain'' (type_name (ioc_type (data w))) then handle_vt_domain e conf w
      else (let w1 = log_error (''IOC type '' @ type_name (ioc_type (data w))
                                 @ '' not handled by VT module. Skipping'') w
            in (Inr (I2Success_data (data w1)), w1)))"

definition hooks_handler_result ::
  "string \<Rightarrow> (exn + ioc iistatus) \<times> world \<Rightarrow> (exn + ioc iistatus) \<times> world" where
  \<comment> \<open>The end of \<open>hooks_handler\<close>, reached by the four known hooks with their \<open>status\<close>;
      an exception raised before it passes through.\<close>
  "hooks_handler_result hook_name r =
     (case r of
        (Inl x, w) \<Rightarrow> (Inl x, w)
      | (Inr status, w) \<Rightarrow>
          if is_failure status
          then (let w1 = log_error (''Encountered error processing hook '' @ hook_name) w
                in (Inr (I2Error_call (data w1) (message_queue w1)), w1))
          else (let w1 = log_info (''Successfully processed hook '' @ hook_name) w
                in (Inr (I2Success_call (data w1) (message_queue w1)), w1)))"

definition hooks_handler :: "env \<Rightarrow> pydict \<Rightarrow> string \<Rightarrow> world \<Rightarrow> (exn + ioc iistatus) \<times> world" where
  \<comment> \<open>\<open>log.addHandler(self.set_log_handler())\<close> is what makes the log lines arrive in
      \<open>message_queue\<close>; the envelope carries \<open>list(self.message_queue)\<close>.\<close>
  "hooks_handler e conf hook_name w =
     (let w0 = log_info (''Received '' @ hook_name) w
      in if hook_name = ''on_postload_ioc_create''
         then hooks_handler_result hook_name (handle_ioc e conf w0)
         else if hook_name = ''on_postload_ioc_update''
         then hooks_handler_result hook_name (handle_ioc e conf w0)
         else if hook_name = ''on_preload_ioc_update''
         then hooks_handler_result hook_name
                (Inr I2Success, w0\<lparr>data := (data w0)\<lparr>ioc_value := PStr ''changed''\<rparr>\<rparr>)
         else if hook_name = ''on_manual_trigger_ioc''
         then hooks_handler_result hook_name (handle_ioc e conf w0)
         else (let w1 = log_critical (''Received unsupported hook '' @ hook_name) w0
               in (Inr (I2Error_call (data w1) (message_queue w1)), w1)))"

definition returns_success :: "(exn + 'd iistatus) \<times> world \<Rightarrow> bool" where
  \<comment> \<open>The call returned (no exception) a status that \<open>is_failure\<close> rejects.\<close>
  "returns_success r = (case fst r of Inl x \<Rightarrow> False | Inr s \<Rightarrow> \<not> is_failure s)"

section \<open>Sample inputs\<close>

text \<open>
  Concrete reports, a client that answers every request with a fixed report, a host
  that accepts the first hook only, a configuration with both enrichment options on,
  and an indicator. They are the inputs at which the theorems below are instantiated.
\<close>

definition sample_results :: pydict where
  "sample_results = [''response_code'' \<mapsto> PInt 1, ''asn'' \<mapsto> PStr ''AS1234'',
                     ''whois'' \<mapsto> PStr ''registrar: example'']"

definition sample_results_no_asn :: pydict where
  "sample_results_no_asn = [''response_code'' \<mapsto> PInt 1]"

definition sample_results_no_data :: pydict where
  "sample_results_no_data = [''response_code'' \<mapsto> PInt 0, ''verbose_msg'' \<mapsto> PStr ''not found'']"

definition sample_api :: "pydict \<Rightarrow> vt_api" where
  "sample_api r = \<lparr>get_ip_report = (\<lambda>v. [''results'' \<mapsto> r]),
                   get_domain_report = (\<lambda>v. [''results'' \<mapsto> r])\<rparr>"

definition sample_host :: "hook_call \<Rightarrow> pyval iistatus" where
  "sample_host c =
     (if fst (snd c) = ''on_postload_ioc_create'' then I2Success
      else I2Error\<lparr>st_message := ''registration refused''\<rparr>)"

definition sample_env :: "pydict \<Rightarrow> env" where
  "sample_env r = \<lparr>PrivateApi = (\<lambda>k. sample_api r), PublicApi = (\<lambda>k. sample_api r),
                   register_to_hook = sample_host\<rparr>"

definition sample_conf :: pydict where
  "sample_conf = [''vt_api_key'' \<mapsto> PStr ''key'', ''vt_key_is_premium'' \<mapsto> PBool False,
                  ''vt_ip_assign_asn_as_tag'' \<mapsto> PBool True,
                  ''vt_domain_add_whois_as_desc'' \<mapsto> PBool True]"

definition sample_ioc :: "string \<Rightarrow> ioc" where
  "sample_ioc tn = \<lparr>ioc_type = \<lparr>type_name = tn\<rparr>, ioc_value = PStr ''8.8.8.8'',
                    ioc_description = PStr ''seen in logs'', ioc_tags = PStr ''a,b''\<rparr>"

definition sample_world :: "string \<Rightarrow> world" where
  "sample_world tn = \<lparr>data = sample_ioc tn, message_queue = [], vt_calls = [], hook_calls = []\<rparr>"

lemmas sample_defs = sample_env_def sample_api_def sample_results_def sample_results_no_asn_def
  sample_results_no_data_def sample_conf_def sample_world_def sample_ioc_def sample_host_def

lemmas model_defs = handle_vt_ip_def handle_vt_domain_def handle_ioc_def hooks_handler_def
  hooks_handler_result_def get_vt_instance_def dict_get_def log_info_def log_error_def
  log_critical_def I2Success_def I2Error_def I2Success_call_def I2Error_call_def
  I2Success_data_def is_failure_def Let_def

lemmas register_defs = register_hooks_def call_register_def report_status_def log_info_def
  log_error_def Let_def

section \<open>Substring test\<close>

text \<open>\<open>contains\<close> decides exactly whether the first string occurs inside the second.\<close>

lemma contains_iff: "contains sub s \<longleftrightarrow> (\<exists>ps ss. s = ps @ sub @ ss)"
proof (induction s)
  case Nil
  then show ?case by auto
next
  case (Cons c cs)
  show ?case
  proof
    assume "contains sub (c # cs)"
    then consider "take (length sub) (c # cs) = sub" | "contains sub cs" by auto
    then show "\<exists>ps ss. c # cs = ps @ sub @ ss"
    proof cases
      case 1
      then have "c # cs = [] @ sub @ drop (length sub) (c # cs)"
        by (metis append_Nil append_take_drop_id)
      then show ?thesis by blast
    next
      case 2
      then obtain ps ss where "cs = ps @ sub @ ss" using Cons.IH by blast
      then have "c # cs = (c # ps) @ sub @ ss" by simp
      then show ?thesis by blast
    qed
  next
    assume "\<exists>ps ss. c # cs = ps @ sub @ ss"
    then obtain ps ss where eq: "c # cs = ps @ sub @ ss" by blast
    show "contains sub (c # cs)"
    proof (cases ps)
      case Nil
      then have "take (length sub) (c # cs) = sub" using eq by simp
      then show ?thesis by simp
    next
      case (Cons p ps')
      then have "cs = ps' @ sub @ ss" using eq by simp
      then have "contains sub cs" using Cons.IH by blast
      then show ?thesis by simp
    qed
  qed
qed

section \<open>IP enrichment: the ASN tag\<close>

text \<open>
  With tagging enabled and a report whose response code is not zero, the routine always
  appends \<open>,ASN:\<close> and the rendered ASN field to the tags; when the field is absent the
  line "ASN was nul - skipping" is logged first, and the rendered field is \<open>None\<close>.
\<close>

lemma handle_vt_ip_tags:
  assumes "get_ip_report (get_vt_instance e conf) (ioc_value (data w)) ''results'' = Some r"
    and "\<not> py_eq_zero (dict_get r ''response_code'')"
    and "dict_get conf ''vt_ip_assign_asn_as_tag'' = PBool True"
  shows "ioc_tags (data (snd (handle_vt_ip e conf w)))
           = PStr (py_str (ioc_tags (data w)) @ '',ASN:'' @ py_str (dict_get r ''asn''))"
  using assms by (simp add: handle_vt_ip_def log_info_def Let_def)

text \<open>
  C1. The claim: when the ASN field of the report is absent the routine logs and skips
  tagging, so the tag string is left unchanged. The code at an indicator tagged \<open>a,b\<close>
  and a report without an ASN: it logs that it skips and then appends \<open>,ASN:None\<close>.
\<close>

theorem handle_vt_ip_absent_asn_appends_none:
  "dict_get sample_results_no_asn ''asn'' = PNone
   \<and> ioc_tags (data (sample_world ''ip-dst'')) = PStr ''a,b''
   \<and> ioc_tags (data (snd (handle_vt_ip (sample_env sample_results_no_asn) sample_conf
                             (sample_world ''ip-dst'')))) = PStr ''a,b,ASN:None''
   \<and> message_queue (snd (handle_vt_ip (sample_env sample_results_no_asn) sample_conf
                             (sample_world ''ip-dst'')))
       = [(INFO, ''Getting IP report for 8.8.8.8''), (INFO, ''VT report fetched.''),
          (INFO, ''Assigning new ASN tag to IOC.''), (INFO, ''ASN was nul - skipping'')]"
  by (simp add: model_defs sample_defs)

section \<open>Hook registration\<close>

text \<open>All four registrations are attempted, in the source's order, whatever the host answers.\<close>

lemma register_hooks_calls:
  "hook_calls (register_hooks e m w) = hook_calls w @
     [(m, ''on_postload_ioc_create'', []), (m, ''on_postload_ioc_update'', []),
      (m, ''on_preload_ioc_update'', []),
      (m, ''on_manual_trigger_ioc'',
         [(''manual_hook_name'', PStr ''Process with VT module''),
          (''is_manual_hook'', PBool True)])]"
  by (simp add: register_defs)

text \<open>
  C2. The claim: the log line after each of the four registration attempts is determined
  by that attempt's status. The code at a host that accepts \<open>on_postload_ioc_create\<close> and
  refuses the other three hooks: all four attempts are made and four success lines are
  logged, since every check reads the status of the first attempt.
\<close>

theorem register_hooks_reports_first_status:
  "is_failure (register_to_hook (sample_env sample_results) (7, ''on_postload_ioc_update'', []))
   \<and> is_failure (register_to_hook (sample_env sample_results) (7, ''on_preload_ioc_update'', []))
   \<and> is_failure (register_to_hook (sample_env sample_results)
        (7, ''on_manual_trigger_ioc'',
         [(''manual_hook_name'', PStr ''Process with VT module''), (''is_manual_hook'', PBool True)]))
   \<and> message_queue (register_hooks (sample_env sample_results) 7 (sample_world ''ip-dst'')) =
       [(INFO, ''Successfully registered on_postload_ioc_create hook''),
        (INFO, ''Successfully registered on_postload_ioc_update hook''),
        (INFO, ''Successfully registered on_preload_ioc_update hook''),
        (INFO, ''Successfully registered on_manual_trigger_ioc hook'')]"
  by (simp add: register_defs sample_defs is_failure_def I2Success_def I2Error_def)

section \<open>Classification\<close>

text \<open>
  C3, as stated, fails: a type name that contains both \<open>ip-\<close> and \<open>domain\<close> is handled by
  the IP routine, not by the domain routine (the two differ in the request they send).
\<close>

theorem handle_ioc_domain_counterexample:
  "contains ''domain'' (type_name (ioc_type (data (sample_world ''ip-domain''))))
   \<and> handle_ioc (sample_env sample_results) sample_conf (sample_world ''ip-domain'')
       \<noteq> handle_vt_domain (sample_env sample_results) sample_conf (sample_world ''ip-domain'')"
  by (simp add: model_defs sample_defs)

text \<open>
  C3, amended. A type name containing \<open>ip-\<close> routes to the IP routine; a type name
  containing \<open>domain\<close> and not \<open>ip-\<close> routes to the domain routine; every other type name
  gives a success status, sends no request and leaves the indicator as it was.
\<close>

theorem handle_ioc_routes:
  "(contains ''ip-'' (type_name (ioc_type (data w)))
      \<longrightarrow> handle_ioc e conf w = handle_vt_ip e conf w)
   \<and> (contains ''domain'' (type_name (ioc_type (data w)))
        \<and> \<not> contains ''ip-'' (type_name (ioc_type (data w)))
      \<longrightarrow> handle_ioc e conf w = handle_vt_domain e conf w)
   \<and> (\<not> contains ''ip-'' (type_name (ioc_type (data w)))
        \<and> \<not> contains ''domain'' (type_name (ioc_type (data w)))
      \<longrightarrow> fst (handle_ioc e conf w) = Inr (I2Success_data (data w))
          \<and> returns_success (handle_ioc e conf w)
          \<and> data (snd (handle_ioc e conf w)) = data w
          \<and> vt_calls (snd (handle_ioc e conf w)) = vt_calls w)"
  by (simp add: handle_ioc_def log_error_def Let_def returns_success_def is_failure_def
      I2Success_data_def I2Success_def)

theorem handle_ioc_routes_witness:
  "(contains ''ip-'' (type_name (ioc_type (data (sample_world ''ip-dst''))))
     \<and> handle_ioc (sample_env sample_results) sample_conf (sample_world ''ip-dst'')
        = handle_vt_ip (sample_env sample_results) sample_conf (sample_world ''ip-dst''))
   \<and> (contains ''domain'' (type_name (ioc_type (data (sample_world ''domain''))))
     \<and> \<not> contains ''ip-'' (type_name (ioc_type (data (sample_world ''domain''))))
     \<and> handle_ioc (sample_env sample_results) sample_conf (sample_world ''domain'')
        = handle_vt_domain (sample_env sample_results) sample_conf (sample_world ''domain''))
   \<and> (\<not> contains ''ip-'' (type_name (ioc_type (data (sample_world ''md5''))))
     \<and> \<not> contains ''domain'' (type_name (ioc_type (data (sample_world ''md5''))))
     \<and> fst (handle_ioc (sample_env sample_results) sample_conf (sample_world ''md5''))
         = Inr (I2Success_data (data (sample_world ''md5'')))
     \<and> data (snd (handle_ioc (sample_env sample_results) sample_conf (sample_world ''md5'')))
         = data (sample_world ''md5'')
     \<and> vt_calls (snd (handle_ioc (sample_env sample_results) sample_conf (sample_world ''md5'')))
         = vt_calls (sample_world ''md5''))"
  using handle_ioc_routes [of "sample_world ''ip-dst''" "sample_env sample_results" sample_conf]
        handle_ioc_routes [of "sample_world ''domain''" "sample_env sample_results" sample_conf]
        handle_ioc_routes [of "sample_world ''md5''" "sample_env sample_results" sample_conf]
  by (simp add: sample_world_def sample_ioc_def)

section \<open>The no-data response\<close>

text \<open>
  C4. When the report's response code equals 0, each of the two enrichment routines
  returns the success status and leaves the indicator object exactly as it was, for
  every indicator and every configuration.
\<close>

theorem response_code_zero_no_change:
  "(get_ip_report (get_vt_instance e conf) (ioc_value (data w)) ''results'' = Some ri
      \<and> py_eq_zero (dict_get ri ''response_code'')
     \<longrightarrow> fst (handle_vt_ip e conf w) = Inr I2Success
         \<and> returns_success (handle_vt_ip e conf w)
         \<and> data (snd (handle_vt_ip e conf w)) = data w)
   \<and> (get_domain_report (get_vt_instance e conf) (ioc_value (data w)) ''results'' = Some rd
      \<and> py_eq_zero (dict_get rd ''response_code'')
     \<longrightarrow> fst (handle_vt_domain e conf w) = Inr I2Success
         \<and> returns_success (handle_vt_domain e conf w)
         \<and> data (snd (handle_vt_domain e conf w)) = data w)"
  by (simp add: handle_vt_ip_def handle_vt_domain_def log_info_def log_error_def Let_def
       returns_success_def is_failure_def I2Success_def)

theorem response_code_zero_no_change_witness:
  "get_ip_report (get_vt_instance (sample_env sample_results_no_data) sample_conf)
       (ioc_value (data (sample_world ''ip-dst''))) ''results'' = Some sample_results_no_data
   \<and> get_domain_report (get_vt_instance (sample_env sample_results_no_data) sample_conf)
       (ioc_value (data (sample_world ''ip-dst''))) ''results'' = Some sample_results_no_data
   \<and> dict_get sample_results_no_data ''response_code'' = PInt 0
   \<and> returns_success (handle_vt_ip (sample_env sample_results_no_data) sample_conf
                        (sample_world ''ip-dst''))
   \<and> data (snd (handle_vt_ip (sample_env sample_results_no_data) sample_conf
                   (sample_world ''ip-dst''))) = sample_ioc ''ip-dst''
   \<and> returns_success (handle_vt_domain (sample_env sample_results_no_data) sample_conf
                        (sample_world ''ip-dst''))
   \<and> data (snd (handle_vt_domain (sample_env sample_results_no_data) sample_conf
                   (sample_world ''ip-dst''))) = sample_ioc ''ip-dst''"
proof -
  have h1: "get_ip_report (get_vt_instance (sample_env sample_results_no_data) sample_conf)
       (ioc_value (data (sample_world ''ip-dst''))) ''results'' = Some sample_results_no_data"
    by (simp add: get_vt_instance_def sample_env_def sample_api_def Let_def)
  have h2: "get_domain_report (get_vt_instance (sample_env sample_results_no_data) sample_conf)
       (ioc_value (data (sample_world ''ip-dst''))) ''results'' = Some sample_results_no_data"
    by (simp add: get_vt_instance_def sample_env_def sample_api_def Let_def)
  have h3: "dict_get sample_results_no_data ''response_code'' = PInt 0"
    by (simp add: dict_get_def sample_results_no_data_def)
  show ?thesis
    using h1 h2 h3
      response_code_zero_no_change [of "sample_env sample_results_no_data" sample_conf
        "sample_world ''ip-dst''" sample_results_no_data sample_results_no_data]
    by (simp add: sample_world_def)
qed

section \<open>Enrichment with data\<close>

text \<open>
  C5. With a report whose response code is not 0 and whose ASN is \<open>AS1234\<close>, and with
  \<open>vt_ip_assign_asn_as_tag\<close> true, the tags after the IP routine are the original tags
  (as the f-string renders them: a string is rendered as itself) followed by
  \<open>,ASN:AS1234\<close>.
\<close>

theorem handle_vt_ip_appends_asn_tag:
  assumes "get_ip_report (get_vt_instance e conf) (ioc_value (data w)) ''results'' = Some r"
    and "\<not> py_eq_zero (dict_get r ''response_code'')"
    and "dict_get r ''asn'' = PStr ''AS1234''"
    and "dict_get conf ''vt_ip_assign_asn_as_tag'' = PBool True"
  shows "ioc_tags (data (snd (handle_vt_ip e conf w)))
           = PStr (py_str (ioc_tags (data w)) @ '',ASN:AS1234'')"
  using assms by (simp add: handle_vt_ip_def log_info_def Let_def)

theorem handle_vt_ip_appends_asn_tag_witness:
  "get_ip_report (get_vt_instance (sample_env sample_results) sample_conf)
       (ioc_value (data (sample_world ''ip-dst''))) ''results'' = Some sample_results
   \<and> \<not> py_eq_zero (dict_get sample_results ''response_code'')
   \<and> dict_get sample_results ''asn'' = PStr ''AS1234''
   \<and> dict_get sample_conf ''vt_ip_assign_asn_as_tag'' = PBool True
   \<and> ioc_tags (data (snd (handle_vt_ip (sample_env sample_results) sample_conf
                             (sample_world ''ip-dst'')))) = PStr ''a,b,ASN:AS1234''"
proof -
  have h1: "get_ip_report (get_vt_instance (sample_env sample_results) sample_conf)
              (ioc_value (data (sample_world ''ip-dst''))) ''results'' = Some sample_results"
    by (simp add: get_vt_instance_def sample_env_def sample_api_def Let_def)
  have h2: "\<not> py_eq_zero (dict_get sample_results ''response_code'')"
    by (simp add: dict_get_def sample_results_def)
  have h3: "dict_get sample_results ''asn'' = PStr ''AS1234''"
    by (simp add: dict_get_def sample_results_def)
  have h4: "dict_get sample_conf ''vt_ip_assign_asn_as_tag'' = PBool True"
    by (simp add: dict_get_def sample_conf_def)
  show ?thesis using h1 h2 h3 h4 handle_vt_ip_appends_asn_tag [OF h1 h2 h3 h4]
    by (simp add: sample_world_def sample_ioc_def)
qed

text \<open>
  C6. With a report whose response code is not 0 and whose whois text is
  \<open>registrar: example\<close>, and with \<open>vt_domain_add_whois_as_desc\<close> true, the description
  after the domain routine is the original description followed by two newlines,
  \<open>WHOIS\<close>, a newline, a space and the whois text.
\<close>

theorem handle_vt_domain_appends_whois:
  assumes "get_domain_report (get_vt_instance e conf) (ioc_value (data w)) ''results'' = Some r"
    and "\<not> py_eq_zero (dict_get r ''response_code'')"
    and "dict_get r ''whois'' = PStr ''registrar: example''"
    and "dict_get conf ''vt_domain_add_whois_as_desc'' = PBool True"
  shows "ioc_description (data (snd (handle_vt_domain e conf w)))
           = PStr (py_str (ioc_description (data w))
                   @ [CHR 0x0A, CHR 0x0A] @ ''WHOIS'' @ [CHR 0x0A] @ '' registrar: example'')"
  using assms by (simp add: handle_vt_domain_def log_info_def Let_def)

theorem handle_vt_domain_appends_whois_witness:
  "get_domain_report (get_vt_instance (sample_env sample_results) sample_conf)
       (ioc_value (data (sample_world ''domain''))) ''results'' = Some sample_results
   \<and> \<not> py_eq_zero (dict_get sample_results ''response_code'')
   \<and> dict_get sample_results ''whois'' = PStr ''registrar: example''
   \<and> dict_get sample_conf ''vt_domain_add_whois_as_desc'' = PBool True
   \<and> ioc_description (data (snd (handle_vt_domain (sample_env sample_results) sample_conf
                                    (sample_world ''domain''))))
        = PStr (''seen in logs'' @ [CHR 0x0A, CHR 0x0A] @ ''WHOIS'' @ [CHR 0x0A]
                @ '' registrar: example'')"
proof -
  have h1: "get_domain_report (get_vt_instance (sample_env sample_results) sample_conf)
              (ioc_value (data (sample_world ''domain''))) ''results'' = Some sample_results"
    by (simp add: get_vt_instance_def sample_env_def sample_api_def Let_def)
  have h2: "\<not> py_eq_zero (dict_get sample_results ''response_code'')"
    by (simp add: dict_get_def sample_results_def)
  have h3: "dict_get sample_results ''whois'' = PStr ''registrar: example''"
    by (simp add: dict_get_def sample_results_def)
  have h4: "dict_get sample_conf ''vt_domain_add_whois_as_desc'' = PBool True"
    by (simp add: dict_get_def sample_conf_def)
  show ?thesis using h1 h2 h3 h4 handle_vt_domain_appends_whois [OF h1 h2 h3 h4]
    by (simp add: sample_world_def sample_ioc_def)
qed

text \<open>
  C9. Tagging is not idempotent: with tagging enabled and the same report (response code
  not 0, ASN present), a second run of the IP routine appends the \<open>ASN:\<close> tag a second
  time, so the tags after two runs carry two appended tags and differ from the tags
  after one run.
\<close>

theorem handle_vt_ip_twice_appends_twice:
  assumes "get_ip_report (get_vt_instance e conf) (ioc_value (data w)) ''results'' = Some r"
    and "\<not> py_eq_zero (dict_get r ''response_code'')"
    and "dict_get r ''asn'' \<noteq> PNone"
    and "dict_get conf ''vt_ip_assign_asn_as_tag'' = PBool True"
  shows "ioc_tags (data (snd (handle_vt_ip e conf (snd (handle_vt_ip e conf w)))))
           = PStr (py_str (ioc_tags (data w)) @ '',ASN:'' @ py_str (dict_get r ''asn'')
                   @ '',ASN:'' @ py_str (dict_get r ''asn''))
     \<and> ioc_tags (data (snd (handle_vt_ip e conf (snd (handle_vt_ip e conf w)))))
           \<noteq> ioc_tags (data (snd (handle_vt_ip e conf w)))"
  using assms by (simp add: handle_vt_ip_def log_info_def Let_def)

theorem handle_vt_ip_twice_appends_twice_witness:
  "get_ip_report (get_vt_instance (sample_env sample_results) sample_conf)
       (ioc_value (data (sample_world ''ip-dst''))) ''results'' = Some sample_results
   \<and> \<not> py_eq_zero (dict_get sample_results ''response_code'')
   \<and> dict_get sample_results ''asn'' \<noteq> PNone
   \<and> dict_get sample_conf ''vt_ip_assign_asn_as_tag'' = PBool True
   \<and> ioc_tags (data (snd (handle_vt_ip (sample_env sample_results) sample_conf
            (snd (handle_vt_ip (sample_env sample_results) sample_conf (sample_world ''ip-dst''))))))
        = PStr ''a,b,ASN:AS1234,ASN:AS1234''"
proof -
  have h1: "get_ip_report (get_vt_instance (sample_env sample_results) sample_conf)
              (ioc_value (data (sample_world ''ip-dst''))) ''results'' = Some sample_results"
    by (simp add: get_vt_instance_def sample_env_def sample_api_def Let_def)
  have h2: "\<not> py_eq_zero (dict_get sample_results ''response_code'')"
    by (simp add: dict_get_def sample_results_def)
  have h3: "dict_get sample_results ''asn'' \<noteq> PNone"
    by (simp add: dict_get_def sample_results_def)
  have h4: "dict_get sample_conf ''vt_ip_assign_asn_as_tag'' = PBool True"
    by (simp add: dict_get_def sample_conf_def)
  have a: "dict_get sample_results ''asn'' = PStr ''AS1234''"
    by (simp add: dict_get_def sample_results_def)
  show ?thesis using h1 h2 h3 h4 handle_vt_ip_twice_appends_twice [OF h1 h2 h3 h4]
    by (simp add: sample_world_def sample_ioc_def a)
qed

section \<open>The dispatcher\<close>

text \<open>
  C7. For every data object, \<open>hooks_handler\<close> with the hook \<open>on_preload_ioc_update\<close> sets
  the value field to the string \<open>changed\<close> (and nothing else of the object), sends no
  request to the reputation client, and returns a Success envelope carrying the object.
\<close>

theorem hooks_handler_preload_sets_changed:
  "data (snd (hooks_handler e conf ''on_preload_ioc_update'' w))
       = (data w)\<lparr>ioc_value := PStr ''changed''\<rparr>
   \<and> ioc_value (data (snd (hooks_handler e conf ''on_preload_ioc_update'' w))) = PStr ''changed''
   \<and> vt_calls (snd (hooks_handler e conf ''on_preload_ioc_update'' w)) = vt_calls w
   \<and> fst (hooks_handler e conf ''on_preload_ioc_update'' w)
       = Inr (I2Success_call ((data w)\<lparr>ioc_value := PStr ''changed''\<rparr>)
               (message_queue (snd (hooks_handler e conf ''on_preload_ioc_update'' w))))
   \<and> returns_success (hooks_handler e conf ''on_preload_ioc_update'' w)"
  by (simp add: hooks_handler_def hooks_handler_result_def log_info_def Let_def is_failure_def
      I2Success_def I2Success_call_def returns_success_def)

text \<open>
  C8. For every data object, \<open>hooks_handler\<close> with a hook name outside the four
  registered names returns an Error envelope whose data is the input object, and the
  object is not changed (nor is any request sent).
\<close>

theorem hooks_handler_unknown_hook:
  assumes "hook_name \<noteq> ''on_postload_ioc_create''" "hook_name \<noteq> ''on_postload_ioc_update''"
    "hook_name \<noteq> ''on_preload_ioc_update''" "hook_name \<noteq> ''on_manual_trigger_ioc''"
  shows "fst (hooks_handler e conf hook_name w)
           = Inr (I2Error_call (data w) (message_queue (snd (hooks_handler e conf hook_name w))))
     \<and> is_failure (I2Error_call (data w) (message_queue (snd (hooks_handler e conf hook_name w))))
     \<and> st_data (I2Error_call (data w) (message_queue (snd (hooks_handler e conf hook_name w))))
         = Some (data w)
     \<and> data (snd (hooks_handler e conf hook_name w)) = data w
     \<and> vt_calls (snd (hooks_handler e conf hook_name w)) = vt_calls w"
  using assms
  by (simp add: hooks_handler_def log_info_def log_critical_def Let_def is_failure_def
      I2Error_def I2Error_call_def)

theorem hooks_handler_unknown_hook_witness:
  "''unknown_event'' \<noteq> ''on_postload_ioc_create'' \<and> ''unknown_event'' \<noteq> ''on_postload_ioc_update''
   \<and> ''unknown_event'' \<noteq> ''on_preload_ioc_update'' \<and> ''unknown_event'' \<noteq> ''on_manual_trigger_ioc''
   \<and> fst (hooks_handler (sample_env sample_results) sample_conf ''unknown_event''
            (sample_world ''ip-dst''))
       = Inr (I2Error_call (sample_ioc ''ip-dst'')
               [(INFO, ''Received unknown_event''),
                (CRITICAL, ''Received unsupported hook unknown_event'')])
   \<and> data (snd (hooks_handler (sample_env sample_results) sample_conf ''unknown_event''
                   (sample_world ''ip-dst''))) = sample_ioc ''ip-dst''"
proof -
  have h1: "''unknown_event'' \<noteq> ''on_postload_ioc_create''" by simp
  have h2: "''unknown_event'' \<noteq> ''on_postload_ioc_update''" by simp
  have h3: "''unknown_event'' \<noteq> ''on_preload_ioc_update''" by simp
  have h4: "''unknown_event'' \<noteq> ''on_manual_trigger_ioc''" by simp
  have m: "message_queue (snd (hooks_handler (sample_env sample_results) sample_conf
                                 ''unknown_event'' (sample_world ''ip-dst'')))
     = [(INFO, ''Received unknown_event''),
        (CRITICAL, ''Received unsupported hook unknown_event'')]"
    by (simp add: hooks_handler_def log_info_def log_critical_def Let_def sample_world_def)
  show ?thesis
    using hooks_handler_unknown_hook
            [OF h1 h2 h3 h4, of "sample_env sample_results" sample_conf "sample_world ''ip-dst''"] m
    by (simp add: sample_world_def)
qed

subsection \<open>The delegating hooks\<close>

lemma handle_vt_ip_success:
  assumes "get_ip_report (get_vt_instance e conf) (ioc_value (data w)) ''results'' \<noteq> None"
  shows "fst (handle_vt_ip e conf w) = Inr I2Success"
  using assms by (auto simp add: handle_vt_ip_def log_info_def Let_def)

lemma handle_vt_domain_success:
  assumes "get_domain_report (get_vt_instance e conf) (ioc_value (data w)) ''results'' \<noteq> None"
  shows "fst (handle_vt_domain e conf w) = Inr I2Success"
  using assms by (auto simp add: handle_vt_domain_def log_info_def Let_def)

lemma handle_ioc_success:
  assumes "\<forall>v. get_ip_report (get_vt_instance e conf) v ''results'' \<noteq> None"
    and "\<forall>v. get_domain_report (get_vt_instance e conf) v ''results'' \<noteq> None"
  shows "returns_success (handle_ioc e conf w)"
  using assms
  by (simp add: handle_ioc_def returns_success_def handle_vt_ip_success handle_vt_domain_success
      is_failure_def I2Success_def I2Success_data_def Let_def)

lemma hooks_handler_result_success:
  assumes "returns_success r"
  shows "fst (hooks_handler_result h r)
           = Inr (I2Success_call (data (snd (hooks_handler_result h r)))
                                 (message_queue (snd (hooks_handler_result h r))))"
  using assms
  by (cases r) (auto simp add: returns_success_def hooks_handler_result_def Let_def log_info_def
      split: sum.splits)

text \<open>
  Without the well-formedness of the report the routines do not return: a report with
  no \<open>results\<close> makes \<open>results.get\<close> raise, and the exception leaves \<open>hooks_handler\<close>.
\<close>

lemma hooks_handler_raises_without_results:
  assumes "get_ip_report (get_vt_instance e conf) (ioc_value (data w)) ''results'' = None"
    and "contains ''ip-'' (type_name (ioc_type (data w)))"
  shows "fst (hooks_handler e conf ''on_postload_ioc_create'' w) = Inl AttributeError"
  using assms
  by (simp add: hooks_handler_def hooks_handler_result_def handle_ioc_def handle_vt_ip_def
      log_info_def Let_def)

text \<open>
  C10. When the client returns well-formed reports (a report always has its \<open>results\<close>),
  \<open>handle_vt_ip\<close>, \<open>handle_vt_domain\<close> and \<open>handle_ioc\<close> return a success status on every
  path; so for the three delegating hooks \<open>hooks_handler\<close> never takes its failure
  branch and returns a Success envelope.
\<close>

theorem delegating_hooks_return_success:
  assumes "\<forall>v. get_ip_report (get_vt_instance e conf) v ''results'' \<noteq> None"
    and "\<forall>v. get_domain_report (get_vt_instance e conf) v ''results'' \<noteq> None"
    and "hook_name = ''on_postload_ioc_create'' \<or> hook_name = ''on_postload_ioc_update''
         \<or> hook_name = ''on_manual_trigger_ioc''"
  shows "returns_success (handle_vt_ip e conf w)
     \<and> returns_success (handle_vt_domain e conf w)
     \<and> returns_success (handle_ioc e conf w)
     \<and> fst (hooks_handler e conf hook_name w)
         = Inr (I2Success_call (data (snd (hooks_handler e conf hook_name w)))
                               (message_queue (snd (hooks_handler e conf hook_name w))))
     \<and> returns_success (hooks_handler e conf hook_name w)"
proof -
  have ip: "returns_success (handle_vt_ip e conf w)"
    using assms(1)
    by (simp add: returns_success_def handle_vt_ip_success is_failure_def I2Success_def)
  have dom: "returns_success (handle_vt_domain e conf w)"
    using assms(2)
    by (simp add: returns_success_def handle_vt_domain_success is_failure_def I2Success_def)
  have ioc: "returns_success (handle_ioc e conf w)"
    using assms(1,2) by (rule handle_ioc_success)
  have eq: "hooks_handler e conf hook_name w
              = hooks_handler_result hook_name
                  (handle_ioc e conf (log_info (''Received '' @ hook_name) w))"
    using assms(3) by (auto simp add: hooks_handler_def Let_def)
  have inner: "returns_success (handle_ioc e conf (log_info (''Received '' @ hook_name) w))"
    using assms(1,2) by (rule handle_ioc_success)
  have envelope: "fst (hooks_handler e conf hook_name w)
         = Inr (I2Success_call (data (snd (hooks_handler e conf hook_name w)))
                               (message_queue (snd (hooks_handler e conf hook_name w))))"
    unfolding eq using inner by (rule hooks_handler_result_success)
  have ok: "returns_success (hooks_handler e conf hook_name w)"
    using envelope
    by (simp add: returns_success_def is_failure_def I2Success_call_def I2Success_def)
  show ?thesis using ip dom ioc envelope ok by simp
qed

theorem delegating_hooks_return_success_witness:
  "(\<forall>v. get_ip_report (get_vt_instance (sample_env sample_results) sample_conf) v ''results''
          \<noteq> None)
   \<and> (\<forall>v. get_domain_report (get_vt_instance (sample_env sample_results) sample_conf) v ''results''
          \<noteq> None)
   \<and> returns_success (hooks_handler (sample_env sample_results) sample_conf
                        ''on_manual_trigger_ioc'' (sample_world ''ip-dst''))"
proof -
  have h1: "\<forall>v. get_ip_report (get_vt_instance (sample_env sample_results) sample_conf) v
                   ''results'' \<noteq> None"
    by (simp add: get_vt_instance_def sample_env_def sample_api_def Let_def)
  have h2: "\<forall>v. get_domain_report (get_vt_instance (sample_env sample_results) sample_conf) v
                   ''results'' \<noteq> None"
    by (simp add: get_vt_instance_def sample_env_def sample_api_def Let_def)
  have h3: "''on_manual_trigger_ioc'' = ''on_postload_ioc_create''
            \<or> ''on_manual_trigger_ioc'' = ''on_postload_ioc_update''
            \<or> ''on_manual_trigger_ioc'' = ''on_manual_trigger_ioc''" by simp
  show ?thesis
    using h1 h2 delegating_hooks_return_success [OF h1 h2 h3, of "sample_world ''ip-dst''"]
    by simp
qed

end
